theory Spec2Isabelle
  imports Complex_Main
begin

section \<open>JavaScript values\<close>

text \<open>
  The server handles untyped data: the webhook body, the donor metadata decoded from
  \<open>custom_id\<close> and the reply of the text service are all results of JSON decoding.
  A value is therefore a JSON value or \<open>undefined\<close> (the result of reading a property
  that is not there). Strings are lists of code units; the model covers the code units
  below 256, which is what a HOL \<open>char\<close> holds. A number is a finite rational or one of
  the three special doubles.
\<close>

datatype js_number = Finite rat | PosInfinity | NegInfinity | NaN

datatype js_value =
    JUndefined
  | JNull
  | JBool bool
  | JNum js_number
  | JStr string
  | JArr "js_value list"
  | JObj "(string \<times> js_value) list"

text \<open>
  What a \<open>throw\<close> or a rejected promise carries. \<open>Error msg\<close> is \<open>new Error(msg)\<close>;
  \<open>FetchFault\<close> is a rejection of \<open>fetch\<close> or of \<open>apiResponse.json()\<close>;
  \<open>DeliveryFault\<close> is a rejection of \<open>transporter.sendMail\<close>.
\<close>

datatype js_error = TypeError | SyntaxError | Error string | FetchFault | DeliveryFault

text \<open>
  A request to the text service. Its body is recorded as the value that line 45 hands to
  \<open>JSON.stringify\<close>; the JSON text of that value is not modelled.
\<close>

record fetch_request =
  req_url :: string
  req_method :: string
  req_headers :: "(string \<times> string) list"
  req_body :: js_value

text \<open>
  The outcome of \<open>await fetch(url, init)\<close>: the promise rejects, or it yields a response
  with its \<open>ok\<close> flag, its status and the outcome of \<open>await apiResponse.json()\<close>
  (\<open>None\<close> when that promise rejects).
\<close>

datatype fetch_outcome =
    FetchRejected
  | Response (resp_ok: bool) (resp_status: nat) (resp_json: "js_value option")

record mail =
  mail_from :: string
  mail_to :: js_value
  mail_subject :: string
  mail_html :: string

text \<open>
  Everything the module reads from its surroundings: the two environment variables that
  reach the webhook path, the built-in conversions of the runtime, and the two external
  collaborators. \<open>JSON_parse s = None\<close> is \<open>JSON.parse\<close> throwing a SyntaxError on
  the text \<open>s\<close>; \<open>sendMail m\<close> is \<open>True\<close> when the transport accepts the message and
  \<open>False\<close> when the promise of \<open>transporter.sendMail\<close> rejects.
\<close>

record env =
  GEMINI_API_KEY :: "string option"
  EMAIL_FROM :: "string option"
  NumberToString :: "rat \<Rightarrow> string"
  StringToNumber :: "string \<Rightarrow> js_number"
  JSON_parse :: "string \<Rightarrow> js_value option"
  fetch :: "fetch_request \<Rightarrow> fetch_outcome"
  sendMail :: "mail \<Rightarrow> bool"

subsection \<open>Sequencing of steps that may throw\<close>

definition bind_err :: "'e + 'a \<Rightarrow> ('a \<Rightarrow> 'e + 'b) \<Rightarrow> 'e + 'b" where
  "bind_err m f = (case m of Inl e \<Rightarrow> Inl e | Inr x \<Rightarrow> f x)"

subsection \<open>Truthiness, string conversion, property reads\<close>

fun truthy :: "js_value \<Rightarrow> bool" where
  "truthy JUndefined = False"
| "truthy JNull = False"
| "truthy (JBool b) = b"
| "truthy (JNum (Finite r)) = (r \<noteq> 0)"
| "truthy (JNum NaN) = False"
| "truthy (JNum PosInfinity) = True"
| "truthy (JNum NegInfinity) = True"
| "truthy (JStr s) = (s \<noteq> [])"
| "truthy (JArr xs) = True"
| "truthy (JObj kvs) = True"

fun number_to_string :: "env \<Rightarrow> js_number \<Rightarrow> string" where
  "number_to_string E (Finite r) = NumberToString E r"
| "number_to_string E PosInfinity = ''Infinity''"
| "number_to_string E NegInfinity = ''-Infinity''"
| "number_to_string E NaN = ''NaN''"

fun join_comma :: "string list \<Rightarrow> string" where
  "join_comma [] = []"
| "join_comma [s] = s"
| "join_comma (s # t # ss) = s @ '','' @ join_comma (t # ss)"

text \<open>
  \<open>ToString\<close> is the conversion a template literal applies to each \<open>${...}\<close>. An array
  joins the conversions of its elements with commas, \<open>null\<close> and \<open>undefined\<close> elements
  giving the empty string. A decoded object inherits \<open>Object.prototype.toString\<close>,
  unless it has a property \<open>toString\<close> of its own: that property is a JSON value,
  not a function, and the conversion throws a TypeError.
\<close>

fun ToString :: "env \<Rightarrow> js_value \<Rightarrow> js_error + string"
  and join_elements :: "env \<Rightarrow> js_value list \<Rightarrow> js_error + string list" where
  "ToString E JUndefined = Inr ''undefined''"
| "ToString E JNull = Inr ''null''"
| "ToString E (JBool b) = Inr (if b then ''true'' else ''false'')"
| "ToString E (JNum n) = Inr (number_to_string E n)"
| "ToString E (JStr s) = Inr s"
| "ToString E (JArr xs) = bind_err (join_elements E xs) (\<lambda>ss. Inr (join_comma ss))"
| "ToString E (JObj kvs) =
     (if map_of kvs ''toString'' = None then Inr ''[object Object]'' else Inl TypeError)"
| "join_elements E [] = Inr []"
| "join_elements E (x # xs) =
     bind_err (if x = JUndefined \<or> x = JNull then Inr [] else ToString E x)
       (\<lambda>s. bind_err (join_elements E xs) (\<lambda>ss. Inr (s # ss)))"

text \<open>
  A property name that is a canonical array index: decimal digits with no leading zero.
\<close>

definition is_digit :: "char \<Rightarrow> bool" where
  "is_digit c = (48 \<le> (of_char c :: nat) \<and> (of_char c :: nat) \<le> 57)"

definition array_index :: "string \<Rightarrow> nat option" where
  "array_index k =
     (if k = [] \<or> \<not> list_all is_digit k \<or> (1 < length k \<and> hd k = CHR ''0'') then None
      else Some (foldl (\<lambda>a c. 10 * a + (of_char c - 48)) 0 k))"

text \<open>
  \<open>js_get v k\<close> is the read \<open>v.k\<close> (or \<open>v[0]\<close> for \<open>k = ''0''\<close>). Reading from
  \<open>undefined\<close> or \<open>null\<close> throws a TypeError; an object gives its own property or
  \<open>undefined\<close>; arrays and strings have \<open>length\<close> and their indices; numbers and
  booleans have no property of their own. Inherited methods are functions, which are
  not JSON values; the only one the server uses is \<open>trim\<close>, modelled by \<open>call_trim\<close>.
\<close>

fun js_get :: "js_value \<Rightarrow> string \<Rightarrow> js_error + js_value" where
  "js_get JUndefined k = Inl TypeError"
| "js_get JNull k = Inl TypeError"
| "js_get (JObj kvs) k = Inr (case map_of kvs k of None \<Rightarrow> JUndefined | Some v \<Rightarrow> v)"
| "js_get (JArr xs) k =
     Inr (if k = ''length'' then JNum (Finite (of_nat (length xs)))
          else case array_index k of
                 None \<Rightarrow> JUndefined
               | Some i \<Rightarrow> if i < length xs then xs ! i else JUndefined)"
| "js_get (JStr s) k =
     Inr (if k = ''length'' then JNum (Finite (of_nat (length s)))
          else case array_index k of
                 None \<Rightarrow> JUndefined
               | Some i \<Rightarrow> if i < length s then JStr [s ! i] else JUndefined)"
| "js_get (JBool b) k = Inr JUndefined"
| "js_get (JNum n) k = Inr JUndefined"

text \<open>
  \<open>String.prototype.trim\<close> removes white space and line terminators from both ends:
  among the code units below 256 these are TAB, LF, VT, FF, CR, space and U+00A0.
\<close>

definition is_white_space :: "char \<Rightarrow> bool" where
  "is_white_space c = ((of_char c :: nat) \<in> {9, 10, 11, 12, 13, 32, 160})"

definition js_trim :: "string \<Rightarrow> string" where
  "js_trim s = rev (dropWhile is_white_space (rev (dropWhile is_white_space s)))"

text \<open>
  The call \<open>v.trim()\<close>: only a string has a callable \<open>trim\<close>. On \<open>undefined\<close> and
  \<open>null\<close> the property read throws; on any other value \<open>v.trim\<close> is \<open>undefined\<close> or
  a JSON value, and calling it throws.
\<close>

fun call_trim :: "js_value \<Rightarrow> js_error + string" where
  "call_trim (JStr s) = Inr (js_trim s)"
| "call_trim v = Inl TypeError"

fun positive :: "js_number \<Rightarrow> bool" where
  "positive (Finite r) = (0 < r)"
| "positive PosInfinity = True"
| "positive NegInfinity = False"
| "positive NaN = False"

text \<open>
  The comparison \<open>v > 0\<close>: the operand is converted to a number. An array or object is
  first converted to a string (which may throw, as in \<open>ToString\<close>).
\<close>

fun gt_zero :: "env \<Rightarrow> js_value \<Rightarrow> js_error + bool" where
  "gt_zero E JUndefined = Inr False"
| "gt_zero E JNull = Inr False"
| "gt_zero E (JBool b) = Inr b"
| "gt_zero E (JNum n) = Inr (positive n)"
| "gt_zero E (JStr s) = Inr (positive (StringToNumber E s))"
| "gt_zero E v = bind_err (ToString E v) (\<lambda>s. Inr (positive (StringToNumber E s)))"

section \<open>The message generator of \<open>server.js\<close>\<close>

text \<open>
  Lines 35 to 39 of \<open>generateThankYouMessage\<close>: the instruction, with the sentence
  about the donor's note added when \<open>message\<close> is truthy. Each \<open>${...}\<close> converts
  its operand to a string, in the order of the text.
\<close>

definition build_prompt :: "env \<Rightarrow> js_value \<Rightarrow> js_value \<Rightarrow> js_value \<Rightarrow> js_error + string" where
  \<open>build_prompt E name amount message =
     bind_err (ToString E name) (\<lambda>n.
     bind_err (ToString E amount) (\<lambda>a.
     bind_err
       (if truthy message
        then bind_err (ToString E message) (\<lambda>m.
               Inr ('' The donor also left this kind message: "'' @ m @
                    ''". Please subtly weave a reference to their message into your thank you.''))
        else Inr [])
       (\<lambda>note.
          Inr (''Write a short, warm, and personal thank you message for a person named '' @ n @
               '' who just donated $'' @ a @
               ''. This donation is for our "HopeSpring Foundation" fundraiser, which provides school supplies for underprivileged children. Mention the impact on the children.'' @
               note @
               '' Keep the tone grateful and heartfelt. Two sentences maximum.''))))\<close>

text \<open>Lines 41 to 46: the one request sent to the text service.\<close>

definition gemini_request :: "env \<Rightarrow> string \<Rightarrow> fetch_request" where
  "gemini_request E prompt =
     \<lparr> req_url =
         ''https://generativelanguage.googleapis.com/v1beta/models/gemini-1.5-flash-latest:generateContent?key='' @
         (case GEMINI_API_KEY E of None \<Rightarrow> ''undefined'' | Some k \<Rightarrow> k),
       req_method = ''POST'',
       req_headers = [(''Content-Type'', ''application/json'')],
       req_body =
         JObj [(''contents'', JArr [JObj [(''parts'', JArr [JObj [(''text'', JStr prompt)]])]])] \<rparr>"

text \<open>
  Lines 54 to 58: the test \<open>data.candidates && data.candidates.length > 0\<close> and the
  read of \<open>data.candidates[0].content.parts[0].text.trim()\<close>.
\<close>

definition candidate_text :: "env \<Rightarrow> js_value \<Rightarrow> js_error + string" where
  "candidate_text E data =
     bind_err (js_get data ''candidates'') (\<lambda>c.
     bind_err (if truthy c then bind_err (js_get c ''length'') (gt_zero E) else Inr False) (\<lambda>some.
       if some then
         bind_err (js_get c ''0'') (\<lambda>c0.
         bind_err (js_get c0 ''content'') (\<lambda>content.
         bind_err (js_get content ''parts'') (\<lambda>parts.
         bind_err (js_get parts ''0'') (\<lambda>p0.
         bind_err (js_get p0 ''text'') call_trim))))
       else Inl (Error ''Invalid response structure from Gemini API.'')))"

text \<open>
  The body of the \<open>try\<close>, lines 35 to 58. The second component is the list of requests
  that were sent: none when building the prompt throws, one otherwise.
\<close>

definition generate_try ::
  "env \<Rightarrow> js_value \<Rightarrow> js_value \<Rightarrow> js_value \<Rightarrow> (js_error + string) \<times> fetch_request list" where
  "generate_try E name amount message =
     (case build_prompt E name amount message of
        Inl e \<Rightarrow> (Inl e, [])
      | Inr prompt \<Rightarrow>
          (case fetch E (gemini_request E prompt) of
             FetchRejected \<Rightarrow> (Inl FetchFault, [gemini_request E prompt])
           | Response ok status js \<Rightarrow>
               if \<not> ok then (Inl (Error ''API request failed''), [gemini_request E prompt])
               else (case js of
                       None \<Rightarrow> (Inl FetchFault, [gemini_request E prompt])
                     | Some data \<Rightarrow> (candidate_text E data, [gemini_request E prompt]))))"

text \<open>Line 62, the value returned by the \<open>catch\<close> block.\<close>

definition fallback_text :: "string \<Rightarrow> string \<Rightarrow> string" where
  "fallback_text a n =
     ''Thank you so much for your generous donation of $'' @ a @ '', '' @ n @
     ''! Your support means the world to us and will make a real difference.''"

definition fallback_message :: "env \<Rightarrow> js_value \<Rightarrow> js_value \<Rightarrow> js_error + string" where
  "fallback_message E name amount =
     bind_err (ToString E amount) (\<lambda>a.
     bind_err (ToString E name) (\<lambda>n. Inr (fallback_text a n)))"

text \<open>
  \<open>generateThankYouMessage\<close>, lines 33 to 64: the value of the \<open>try\<close> when it
  completes, the fallback of the \<open>catch\<close> when anything in it throws. \<open>Inl\<close> in the
  first component is an exception leaving the function.
\<close>

definition generateThankYouMessage ::
  "env \<Rightarrow> js_value \<Rightarrow> js_value \<Rightarrow> js_value \<Rightarrow> (js_error + string) \<times> fetch_request list" where
  "generateThankYouMessage E name amount message =
     (case generate_try E name amount message of
        (Inr text, sent) \<Rightarrow> (Inr text, sent)
      | (Inl e, sent) \<Rightarrow> (fallback_message E name amount, sent))"

section \<open>The webhook handler of \<open>server.js\<close>\<close>

text \<open>
  What lines 132 to 139 read from the event: the capture (\<open>event.resource\<close>), the
  amount and the three fields of the donor metadata.
\<close>

record donation =
  d_capture :: js_value
  d_amount :: js_value
  d_name :: js_value
  d_email :: js_value
  d_message :: js_value

text \<open>
  Lines 132 to 139. \<open>JSON.parse\<close> converts its argument to a string before decoding
  it; the destructuring of \<open>donorInfo\<close> is three property reads, which throw when
  \<open>donorInfo\<close> is \<open>null\<close>.
\<close>

definition read_donation :: "env \<Rightarrow> js_value \<Rightarrow> js_error + donation" where
  "read_donation E event =
     bind_err (js_get event ''resource'') (\<lambda>cap.
     bind_err (js_get cap ''amount'') (\<lambda>amt.
     bind_err (js_get amt ''value'') (\<lambda>value.
     bind_err (js_get cap ''purchase_units'') (\<lambda>units.
     bind_err (js_get units ''0'') (\<lambda>purchase_unit.
     bind_err (js_get purchase_unit ''custom_id'') (\<lambda>custom_id.
     bind_err (ToString E custom_id) (\<lambda>text.
     bind_err (case JSON_parse E text of None \<Rightarrow> Inl SyntaxError | Some v \<Rightarrow> Inr v) (\<lambda>donorInfo.
     bind_err (js_get donorInfo ''name'') (\<lambda>name.
     bind_err (js_get donorInfo ''email'') (\<lambda>email.
     bind_err (js_get donorInfo ''message'') (\<lambda>message.
       Inr \<lparr> d_capture = cap, d_amount = value, d_name = name,
             d_email = email, d_message = message \<rparr>)))))))))))"

text \<open>
  Line 142 logs \<open>Processing donation: ${amount} from ${name} (${email})\<close>. The text
  that is logged is not part of the model; the three conversions are, since each of them
  can throw.
\<close>

definition log_processing :: "env \<Rightarrow> donation \<Rightarrow> js_error + unit" where
  "log_processing E d =
     bind_err (ToString E (d_amount d)) (\<lambda>a.
     bind_err (ToString E (d_name d)) (\<lambda>n.
     bind_err (ToString E (d_email d)) (\<lambda>e. Inr ())))"

text \<open>The fixed text of the HTML body, lines 153 to 212, between its five insertions.\<close>

definition html_before_name :: string where
  \<open>html_before_name =
     ''\<newline>'' @
     ''                <!DOCTYPE html>\<newline>'' @
     ''                <html lang="en">\<newline>'' @
     ''                <head>\<newline>'' @
     ''                    <meta charset="UTF-8">\<newline>'' @
     ''                    <meta name="viewport" content="width=device-width, initial-scale=1.0">\<newline>'' @
     ''                    <title>Thank You for Your Donation!</title>\<newline>'' @
     ''                    <style>\<newline>'' @
     ''                        body, table, td, a { -webkit-text-size-adjust: 100%; -ms-text-size-adjust: 100%; }\<newline>'' @
     ''                        table, td { mso-table-lspace: 0pt; mso-table-rspace: 0pt; }\<newline>'' @
     ''                        img { -ms-interpolation-mode: bicubic; border: 0; height: auto; line-height: 100%; outline: none; text-decoration: none; }\<newline>'' @
     ''                        table { border-collapse: collapse !important; }\<newline>'' @
     ''                        body { height: 100% !important; margin: 0 !important; padding: 0 !important; width: 100% !important; font-family: 'Inter', Arial, sans-serif; }\<newline>'' @
     ''                        .container { width: 100%; max-width: 600px; margin: 0 auto; background-color: #1a1a1a; border-radius: 16px; overflow: hidden; border: 1px solid #333333; }\<newline>'' @
     ''                        .header { background-color: #4f46e5; color: #ffffff; padding: 48px 32px; text-align: center; }\<newline>'' @
     ''                        .header h1 { margin: 0; font-size: 32px; font-weight: 700; }\<newline>'' @
     ''                        .content { padding: 40px 32px; color: #d1d5db; line-height: 1.7; font-size: 16px; }\<newline>'' @
     ''                        .content p { margin: 0 0 20px; }\<newline>'' @
     ''                        .donation-details { background-color: #2a2a2a; border-radius: 12px; padding: 24px; margin: 28px 0; border-left: 4px solid #4f46e5; }\<newline>'' @
     ''                        .donation-details p { margin: 0 0 12px; font-size: 16px; }\<newline>'' @
     ''                        .donation-details p:last-child { margin-bottom: 0; }\<newline>'' @
     ''                        .donation-details strong { color: #ffffff; }\<newline>'' @
     ''                        .gemini-message { background-color: #252244; border-radius: 12px; padding: 28px; margin: 28px 0; font-style: italic; color: #c7d2fe; text-align: center; font-size: 18px; line-height: 1.6; }\<newline>'' @
     ''                        .gemini-message p { margin: 0; }\<newline>'' @
     ''                        .footer { background-color: #111111; color: #9ca3af; padding: 32px; text-align: center; font-size: 14px; }\<newline>'' @
     ''                        .footer a { color: #818cf8; text-decoration: none; font-weight: 500; }\<newline>'' @
     ''                    </style>\<newline>'' @
     ''                </head>\<newline>'' @
     ''                <body style="background-color: #000000; padding: 40px 24px;">\<newline>'' @
     ''                    <table border="0" cellpadding="0" cellspacing="0" width="100%">\<newline>'' @
     ''                        <tr>\<newline>'' @
     ''                            <td align="center">\<newline>'' @
     ''                                <table border="0" cellpadding="0" cellspacing="0" class="container">\<newline>'' @
     ''                                    <tr><td class="header"><h1>Thank You!</h1></td></tr>\<newline>'' @
     ''                                    <tr>\<newline>'' @
     ''                                        <td class="content">\<newline>'' @
     ''                                            <p>Dear ''\<close>

definition html_before_amount :: string where
  \<open>html_before_amount =
     '',</p>\<newline>'' @
     ''                                            <p>We are incredibly grateful for your recent contribution to <strong>HopeSpring Foundation</strong>. Your support makes a real difference and helps us continue our mission.</p>\<newline>'' @
     ''                                            <div class="donation-details">\<newline>'' @
     ''                                                <p><strong>Amount:</strong> $''\<close>

definition html_before_cause :: string where
  \<open>html_before_cause =
     ''</p>\<newline>'' @
     ''                                                <p><strong>Cause:</strong> ''\<close>

definition html_before_id :: string where
  \<open>html_before_id =
     ''</p>\<newline>'' @
     ''                                                <p><strong>Transaction ID:</strong> ''\<close>

definition html_before_message :: string where
  \<open>html_before_message =
     ''</p>\<newline>'' @
     ''                                            </div>\<newline>'' @
     ''                                            <div class="gemini-message"><p>"''\<close>

definition html_after_message :: string where
  \<open>html_after_message =
     ''"</p></div>\<newline>'' @
     ''                                            <p>Your kindness is what fuels our work. Thank you once again for your generous support.</p>\<newline>'' @
     ''                                        </td>\<newline>'' @
     ''                                    </tr>\<newline>'' @
     ''                                    <tr>\<newline>'' @
     ''                                        <td class="footer">\<newline>'' @
     ''                                            <p>&copy; 2025 HopeSpring Foundation. All Rights Reserved.</p>\<newline>'' @
     ''                                            <p><a href="http://localhost:3000" target="_blank">Visit Our Fundraiser</a></p>\<newline>'' @
     ''                                        </td>\<newline>'' @
     ''                                    </tr>\<newline>'' @
     ''                                </table>\<newline>'' @
     ''                            </td>\<newline>'' @
     ''                        </tr>\<newline>'' @
     ''                    </table>\<newline>'' @
     ''                </body>\<newline>'' @
     ''                </html>\<newline>'' @
     ''                ''\<close>

text \<open>Line 140.\<close>

definition cause :: string where
  \<open>cause = ''HopeSpring Foundation's Children's Fund''\<close>

text \<open>
  Lines 149 to 213, the argument of \<open>transporter.sendMail\<close>: sender, recipient (the
  \<open>email\<close> value as it is), subject and the HTML body with the name, the amount, the
  cause, \<open>capture.id\<close> and the generated message inserted.
\<close>

definition build_mail :: "env \<Rightarrow> donation \<Rightarrow> string \<Rightarrow> js_error + mail" where
  \<open>build_mail E d aiMessage =
     bind_err (ToString E (d_name d)) (\<lambda>n.
     bind_err (ToString E (d_amount d)) (\<lambda>a.
     bind_err (js_get (d_capture d) ''id'') (\<lambda>id.
     bind_err (ToString E id) (\<lambda>i.
       Inr \<lparr> mail_from =
               ''"HopeSpring Foundation" <'' @
               (case EMAIL_FROM E of None \<Rightarrow> ''undefined'' | Some f \<Rightarrow> f) @ ''>'',
             mail_to = d_email d,
             mail_subject = ''Your incredible support for the HopeSpring Foundation!'',
             mail_html =
               html_before_name @ n @ html_before_amount @ a @ html_before_cause @ cause @
               html_before_id @ i @ html_before_message @ aiMessage @ html_after_message \<rparr>))))\<close>

text \<open>
  What one run of the handler does, each list in the order of the calls: the statuses
  passed to \<open>res.sendStatus\<close>, the arguments of the calls of
  \<open>generateThankYouMessage\<close>, the requests sent to the text service, and the messages
  handed to \<open>transporter.sendMail\<close> (whether the transport accepted them or not).
\<close>

record effects =
  responses :: "nat list"
  generator_calls :: "(js_value \<times> js_value \<times> js_value) list"
  fetch_log :: "fetch_request list"
  mail_log :: "mail list"

definition no_effects :: effects where
  "no_effects = \<lparr> responses = [], generator_calls = [], fetch_log = [], mail_log = [] \<rparr>"

text \<open>
  The \<open>try\<close> block of the handler, lines 131 to 215. The result is the exception that
  reached the \<open>catch\<close> (if any) and the effects up to that point. Line 214 logs the
  recipient after the send, which converts \<open>email\<close> once more.
\<close>

definition process_capture :: "env \<Rightarrow> js_value \<Rightarrow> js_error option \<times> effects" where
  "process_capture E event =
     (case read_donation E event of
        Inl e \<Rightarrow> (Some e, no_effects)
      | Inr d \<Rightarrow>
          (case log_processing E d of
             Inl e \<Rightarrow> (Some e, no_effects)
           | Inr u \<Rightarrow>
               (case generateThankYouMessage E (d_name d) (d_amount d) (d_message d) of
                  (result, sent) \<Rightarrow>
                    (let called = no_effects \<lparr> generator_calls := [(d_name d, d_amount d, d_message d)],
                                                fetch_log := sent \<rparr>
                     in case result of
                          Inl e \<Rightarrow> (Some e, called)
                        | Inr aiMessage \<Rightarrow>
                            (case build_mail E d aiMessage of
                               Inl e \<Rightarrow> (Some e, called)
                             | Inr m \<Rightarrow>
                                 if sendMail E m
                                 then (case ToString E (d_email d) of
                                         Inl e \<Rightarrow> (Some e, called \<lparr> mail_log := [m] \<rparr>)
                                       | Inr t \<Rightarrow> (None, called \<lparr> mail_log := [m] \<rparr>))
                                 else (Some DeliveryFault, called \<lparr> mail_log := [m] \<rparr>))))))"

text \<open>
  The handler, lines 124 to 225. \<open>event.event_type\<close> is read outside the \<open>try\<close>:
  on a body that is \<open>null\<close> or \<open>undefined\<close> the read throws and the handler's
  promise rejects before any effect (\<open>Inl\<close>). The \<open>catch\<close> sends 500 and
  returns; every other path falls through to the \<open>res.sendStatus(200)\<close> of line 224.
  The first component of the intermediate pair says whether the handler has returned.
\<close>

definition webhook_post :: "env \<Rightarrow> js_value \<Rightarrow> js_error + effects" where
  "webhook_post E event =
     bind_err (js_get event ''event_type'') (\<lambda>event_type.
       let (returned, eff) =
             (if event_type = JStr ''PAYMENT.CAPTURE.COMPLETED'' then
                (case process_capture E event of
                   (Some e, eff) \<Rightarrow> (True, eff \<lparr> responses := responses eff @ [500] \<rparr>)
                 | (None, eff) \<Rightarrow> (False, eff))
              else (False, no_effects))
       in Inr (if returned then eff else eff \<lparr> responses := responses eff @ [200] \<rparr>))"

section \<open>The second copy of the server, \<open>part_000\<close>\<close>

text \<open>
  The second source file holds the same server with fewer comments. Its generator
  (lines 29 to 59) is translated here on its own, from its own text. Its handler
  (lines 108 to 195) reads the event, logs, and builds the message with the same
  statements as lines 132 to 213 of \<open>server.js\<close>, so it shares \<open>read_donation\<close>,
  \<open>log_processing\<close> and \<open>build_mail\<close>, and calls its own generator.
\<close>

definition build_prompt_part_000 ::
  "env \<Rightarrow> js_value \<Rightarrow> js_value \<Rightarrow> js_value \<Rightarrow> js_error + string" where
  \<open>build_prompt_part_000 E name amount message =
     (case ToString E name of
        Inl e \<Rightarrow> Inl e
      | Inr n \<Rightarrow>
          (case ToString E amount of
             Inl e \<Rightarrow> Inl e
           | Inr a \<Rightarrow>
               (let prompt =
                      ''Write a short, warm, and personal thank you message for a person named '' @ n @
                      '' who just donated $'' @ a @
                      ''. This donation is for our "HopeSpring Foundation" fundraiser, which provides school supplies for underprivileged children. Mention the impact on the children.''
                in if truthy message then
                     (case ToString E message of
                        Inl e \<Rightarrow> Inl e
                      | Inr m \<Rightarrow>
                          Inr ((prompt @ '' The donor also left this kind message: "'' @ m @
                                ''". Please subtly weave a reference to their message into your thank you.'') @
                               '' Keep the tone grateful and heartfelt. Two sentences maximum.''))
                   else Inr (prompt @ '' Keep the tone grateful and heartfelt. Two sentences maximum.''))))\<close>

definition gemini_request_part_000 :: "env \<Rightarrow> string \<Rightarrow> fetch_request" where
  "gemini_request_part_000 E prompt =
     \<lparr> req_url =
         ''https://generativelanguage.googleapis.com/v1beta/models/gemini-1.5-flash-latest:generateContent?key='' @
         (case GEMINI_API_KEY E of None \<Rightarrow> ''undefined'' | Some k \<Rightarrow> k),
       req_method = ''POST'',
       req_headers = [(''Content-Type'', ''application/json'')],
       req_body =
         JObj [(''contents'', JArr [JObj [(''parts'', JArr [JObj [(''text'', JStr prompt)]])]])] \<rparr>"

definition candidate_text_part_000 :: "env \<Rightarrow> js_value \<Rightarrow> js_error + string" where
  "candidate_text_part_000 E data =
     (case js_get data ''candidates'' of
        Inl e \<Rightarrow> Inl e
      | Inr c \<Rightarrow>
          (case (if truthy c then bind_err (js_get c ''length'') (gt_zero E) else Inr False) of
             Inl e \<Rightarrow> Inl e
           | Inr False \<Rightarrow> Inl (Error ''Invalid response structure from Gemini API.'')
           | Inr True \<Rightarrow>
               bind_err (js_get c ''0'') (\<lambda>c0.
               bind_err (js_get c0 ''content'') (\<lambda>content.
               bind_err (js_get content ''parts'') (\<lambda>parts.
               bind_err (js_get parts ''0'') (\<lambda>p0.
               bind_err (js_get p0 ''text'') call_trim))))))"

definition generate_try_part_000 ::
  "env \<Rightarrow> js_value \<Rightarrow> js_value \<Rightarrow> js_value \<Rightarrow> (js_error + string) \<times> fetch_request list" where
  "generate_try_part_000 E name amount message =
     (case build_prompt_part_000 E name amount message of
        Inl e \<Rightarrow> (Inl e, [])
      | Inr prompt \<Rightarrow>
          (let request = gemini_request_part_000 E prompt
           in case fetch E request of
                FetchRejected \<Rightarrow> (Inl FetchFault, [request])
              | Response ok status js \<Rightarrow>
                  if \<not> ok then (Inl (Error ''API request failed''), [request])
                  else (case js of
                          None \<Rightarrow> (Inl FetchFault, [request])
                        | Some data \<Rightarrow> (candidate_text_part_000 E data, [request]))))"

definition fallback_message_part_000 :: "env \<Rightarrow> js_value \<Rightarrow> js_value \<Rightarrow> js_error + string" where
  "fallback_message_part_000 E name amount =
     (case ToString E amount of
        Inl e \<Rightarrow> Inl e
      | Inr a \<Rightarrow>
          (case ToString E name of
             Inl e \<Rightarrow> Inl e
           | Inr n \<Rightarrow>
               Inr (''Thank you so much for your generous donation of $'' @ a @ '', '' @ n @
                    ''! Your support means the world to us and will make a real difference.'')))"

definition generateThankYouMessage_part_000 ::
  "env \<Rightarrow> js_value \<Rightarrow> js_value \<Rightarrow> js_value \<Rightarrow> (js_error + string) \<times> fetch_request list" where
  "generateThankYouMessage_part_000 E name amount message =
     (let (result, sent) = generate_try_part_000 E name amount message
      in case result of
           Inr text \<Rightarrow> (Inr text, sent)
         | Inl e \<Rightarrow> (fallback_message_part_000 E name amount, sent))"

definition process_capture_part_000 :: "env \<Rightarrow> js_value \<Rightarrow> js_error option \<times> effects" where
  "process_capture_part_000 E event =
     (case read_donation E event of
        Inl e \<Rightarrow> (Some e, no_effects)
      | Inr d \<Rightarrow>
          (case log_processing E d of
             Inl e \<Rightarrow> (Some e, no_effects)
           | Inr u \<Rightarrow>
               (case generateThankYouMessage_part_000 E (d_name d) (d_amount d) (d_message d) of
                  (result, sent) \<Rightarrow>
                    (let called = no_effects \<lparr> generator_calls := [(d_name d, d_amount d, d_message d)],
                                                fetch_log := sent \<rparr>
                     in case result of
                          Inl e \<Rightarrow> (Some e, called)
                        | Inr aiMessage \<Rightarrow>
                            (case build_mail E d aiMessage of
                               Inl e \<Rightarrow> (Some e, called)
                             | Inr m \<Rightarrow>
                                 if sendMail E m
                                 then (case ToString E (d_email d) of
                                         Inl e \<Rightarrow> (Some e, called \<lparr> mail_log := [m] \<rparr>)
                                       | Inr t \<Rightarrow> (None, called \<lparr> mail_log := [m] \<rparr>))
                                 else (Some DeliveryFault, called \<lparr> mail_log := [m] \<rparr>))))))"

definition webhook_post_part_000 :: "env \<Rightarrow> js_value \<Rightarrow> js_error + effects" where
  "webhook_post_part_000 E event =
     bind_err (js_get event ''event_type'') (\<lambda>event_type.
       let (returned, eff) =
             (if event_type = JStr ''PAYMENT.CAPTURE.COMPLETED'' then
                (case process_capture_part_000 E event of
                   (Some e, eff) \<Rightarrow> (True, eff \<lparr> responses := responses eff @ [500] \<rparr>)
                 | (None, eff) \<Rightarrow> (False, eff))
              else (False, no_effects))
       in Inr (if returned then eff else eff \<lparr> responses := responses eff @ [200] \<rparr>))"

section \<open>Conditions on inputs\<close>

definition nullish :: "js_value \<Rightarrow> bool" where
  "nullish v = (v = JUndefined \<or> v = JNull)"

text \<open>
  The value found at \<open>candidates[0].content.parts[0].text\<close> of a decoded reply, when
  every read on the way there succeeds. It is written with the property reads of the
  runtime only.
\<close>

definition first_candidate_text :: "js_value \<Rightarrow> js_value option" where
  "first_candidate_text data =
     (case js_get data ''candidates'' of Inl e \<Rightarrow> None | Inr c \<Rightarrow>
     (case js_get c ''0'' of Inl e \<Rightarrow> None | Inr c0 \<Rightarrow>
     (case js_get c0 ''content'' of Inl e \<Rightarrow> None | Inr content \<Rightarrow>
     (case js_get content ''parts'' of Inl e \<Rightarrow> None | Inr parts \<Rightarrow>
     (case js_get parts ''0'' of Inl e \<Rightarrow> None | Inr p0 \<Rightarrow>
     (case js_get p0 ''text'' of Inl e \<Rightarrow> None | Inr t \<Rightarrow> Some t))))))"

definition is_string :: "js_value \<Rightarrow> bool" where
  "is_string v = (case v of JStr s \<Rightarrow> True | _ \<Rightarrow> False)"

text \<open>
  An empty or invalid payload: the decoded reply is \<open>null\<close>; or its \<open>candidates\<close> are
  absent, \<open>null\<close> or another falsy value; or they are an empty array; or they are an
  array whose first element does not lead to a string at \<open>content.parts[0].text\<close>.
\<close>

definition invalid_payload :: "js_value \<Rightarrow> bool" where
  "invalid_payload data =
     (case js_get data ''candidates'' of
        Inl e \<Rightarrow> True
      | Inr c \<Rightarrow>
          \<not> truthy c \<or>
          (case c of
             JArr xs \<Rightarrow>
               xs = [] \<or>
               (case first_candidate_text data of None \<Rightarrow> True | Some t \<Rightarrow> \<not> is_string t)
           | _ \<Rightarrow> False))"

text \<open>
  The faults of the external call, as conditions on what the text service does: the
  request is rejected (transport fault), the status is not a success, the body cannot
  be decoded, or the decoded body is an empty or invalid payload.
\<close>

fun external_fault :: "fetch_outcome \<Rightarrow> bool" where
  "external_fault FetchRejected = True"
| "external_fault (Response ok status None) = True"
| "external_fault (Response ok status (Some data)) = (\<not> ok \<or> invalid_payload data)"

text \<open>
  A donor field that is missing (\<open>undefined\<close>, or \<open>null\<close>) or a string, the empty
  string included.
\<close>

definition missing_or_string :: "js_value \<Rightarrow> bool" where
  "missing_or_string v =
     (case v of JUndefined \<Rightarrow> True | JNull \<Rightarrow> True | JStr s \<Rightarrow> True | _ \<Rightarrow> False)"

section \<open>Example data\<close>

text \<open>
  A table that agrees with \<open>JSON.parse\<close> on the metadata texts of the examples below and
  treats every other text as malformed.
\<close>

definition example_parse :: "string \<Rightarrow> js_value option" where
  \<open>example_parse text =
     (if text = ''{"name":"Ada","email":"ada@x.com"}''
      then Some (JObj [(''name'', JStr ''Ada''), (''email'', JStr ''ada@x.com'')])
      else if text = ''{"email":"ada@x.com"}''
      then Some (JObj [(''email'', JStr ''ada@x.com'')])
      else None)\<close>

text \<open>
  An environment in which the text service answers every request with \<open>reply\<close> and the
  mail transport accepts every message or none. The examples contain no number, so the
  two number conversions are never consulted.
\<close>

definition example_env :: "fetch_outcome \<Rightarrow> bool \<Rightarrow> env" where
  "example_env reply accepted =
     \<lparr> GEMINI_API_KEY = Some ''example-key'',
       EMAIL_FROM = Some ''donations@hopespring.example'',
       NumberToString = (\<lambda>r. ''0''),
       StringToNumber = (\<lambda>s. NaN),
       JSON_parse = example_parse,
       fetch = (\<lambda>request. reply),
       sendMail = (\<lambda>m. accepted) \<rparr>"

definition capture_event :: "string \<Rightarrow> js_value" where
  "capture_event custom_id =
     JObj [(''event_type'', JStr ''PAYMENT.CAPTURE.COMPLETED''),
           (''resource'',
            JObj [(''id'', JStr ''8XY12345AB678901C''),
                  (''amount'', JObj [(''currency_code'', JStr ''USD''), (''value'', JStr ''25.00'')]),
                  (''purchase_units'', JArr [JObj [(''custom_id'', JStr custom_id)]])])]"

definition reply_with_text :: "string \<Rightarrow> fetch_outcome" where
  "reply_with_text t =
     Response True 200
       (Some (JObj [(''candidates'',
                     JArr [JObj [(''content'', JObj [(''parts'', JArr [JObj [(''text'', JStr t)]])])]])]))"

definition ada_metadata :: string where
  \<open>ada_metadata = ''{"name":"Ada","email":"ada@x.com"}''\<close>

definition nameless_metadata :: string where
  \<open>nameless_metadata = ''{"email":"ada@x.com"}''\<close>

definition ada_donation :: donation where
  "ada_donation =
     \<lparr> d_capture =
         JObj [(''id'', JStr ''8XY12345AB678901C''),
               (''amount'', JObj [(''currency_code'', JStr ''USD''), (''value'', JStr ''25.00'')]),
               (''purchase_units'', JArr [JObj [(''custom_id'', JStr ada_metadata)]])],
       d_amount = JStr ''25.00'',
       d_name = JStr ''Ada'',
       d_email = JStr ''ada@x.com'',
       d_message = JUndefined \<rparr>"

definition nameless_donation :: donation where
  "nameless_donation =
     \<lparr> d_capture =
         JObj [(''id'', JStr ''8XY12345AB678901C''),
               (''amount'', JObj [(''currency_code'', JStr ''USD''), (''value'', JStr ''25.00'')]),
               (''purchase_units'', JArr [JObj [(''custom_id'', JStr nameless_metadata)]])],
       d_amount = JStr ''25.00'',
       d_name = JUndefined,
       d_email = JStr ''ada@x.com'',
       d_message = JUndefined \<rparr>"

section \<open>Basic facts\<close>

lemma bind_err_Inl: "bind_err (Inl e) f = Inl e"
  by (simp add: bind_err_def)

lemma bind_err_Inr: "bind_err (Inr x) f = f x"
  by (simp add: bind_err_def)

lemma bind_err_eq_Inr:
  "bind_err m f = Inr y \<longleftrightarrow> (\<exists>x. m = Inr x \<and> f x = Inr y)"
  by (cases m) (simp_all add: bind_err_def)

lemma array_index_zero: "array_index ''0'' = Some 0"
  by (simp add: array_index_def is_digit_def)

lemma js_get_first: "js_get (JArr (x # xs)) ''0'' = Inr x"
  by (simp add: array_index_zero)

lemma js_get_nullish: "nullish v \<Longrightarrow> js_get v k = Inl TypeError"
  by (auto simp: nullish_def)

lemma js_get_not_nullish: "\<not> nullish v \<Longrightarrow> \<exists>x. js_get v k = Inr x"
  by (cases v) (simp_all add: nullish_def)

lemma js_get_Inr_not_nullish: "js_get v k = Inr x \<Longrightarrow> \<not> nullish v"
  by (cases v) (simp_all add: nullish_def)

section \<open>The generator\<close>

lemma candidate_text_found:
  assumes "js_get data ''candidates'' = Inr (JArr (c0 # cs))"
    and "js_get c0 ''content'' = Inr content"
    and "js_get content ''parts'' = Inr (JArr (p0 # ps))"
    and "js_get p0 ''text'' = Inr (JStr t)"
  shows "candidate_text E data = Inr (js_trim t)"
proof -
  have pos: "bind_err (js_get (JArr (c0 # cs)) ''length'') (gt_zero E) = Inr True"
    by (simp add: bind_err_Inr)
  show ?thesis
    unfolding candidate_text_def
    by (simp only: assms bind_err_Inr truthy.simps if_True pos js_get_first call_trim.simps)
qed

lemma call_trim_Inr: "call_trim v = Inr s \<Longrightarrow> \<exists>t. v = JStr t \<and> s = js_trim t"
  by (cases v) simp_all

lemma call_trim_not_string: "\<not> is_string v \<Longrightarrow> call_trim v = Inl TypeError"
  by (cases v) (simp_all add: is_string_def)

lemma array_has_elements:
  "bind_err (js_get (JArr (x # xs)) ''length'') (gt_zero E) = Inr True"
  by (simp add: bind_err_Inr)

lemma candidate_text_of_array:
  assumes "js_get data ''candidates'' = Inr (JArr (c0 # cs))"
  shows "candidate_text E data =
           bind_err (js_get c0 ''content'') (\<lambda>content.
           bind_err (js_get content ''parts'') (\<lambda>parts.
           bind_err (js_get parts ''0'') (\<lambda>p0.
           bind_err (js_get p0 ''text'') call_trim)))"
  unfolding candidate_text_def
  by (simp only: assms bind_err_Inr truthy.simps if_True array_has_elements js_get_first)

lemma first_candidate_text_of_array:
  assumes "js_get data ''candidates'' = Inr (JArr (c0 # cs))"
  shows "first_candidate_text data =
           (case js_get c0 ''content'' of Inl e \<Rightarrow> None | Inr content \<Rightarrow>
           (case js_get content ''parts'' of Inl e \<Rightarrow> None | Inr parts \<Rightarrow>
           (case js_get parts ''0'' of Inl e \<Rightarrow> None | Inr p0 \<Rightarrow>
           (case js_get p0 ''text'' of Inl e \<Rightarrow> None | Inr t \<Rightarrow> Some t))))"
  by (simp add: first_candidate_text_def assms array_index_zero)

lemma candidate_text_first:
  assumes "js_get data ''candidates'' = Inr (JArr (c0 # cs))"
    and "first_candidate_text data = Some (JStr t)"
  shows "candidate_text E data = Inr (js_trim t)"
  using assms(2)
  by (auto simp: candidate_text_of_array[OF assms(1)] first_candidate_text_of_array[OF assms(1)]
      bind_err_Inr split: sum.splits)

lemma candidate_text_Inr:
  "candidate_text E data = Inr s \<Longrightarrow>
   \<exists>t. first_candidate_text data = Some (JStr t) \<and> s = js_trim t"
  unfolding candidate_text_def first_candidate_text_def
  by (auto simp: bind_err_eq_Inr split: if_splits dest!: call_trim_Inr)

lemma invalid_payload_throws:
  assumes "invalid_payload data"
  shows "isl (candidate_text E data)"
proof (cases "js_get data ''candidates''")
  case (Inl e)
  then show ?thesis by (simp add: candidate_text_def bind_err_Inl)
next
  case (Inr c)
  show ?thesis
  proof (cases "truthy c")
    case False
    then show ?thesis by (simp add: candidate_text_def Inr bind_err_Inr)
  next
    case True
    with assms Inr obtain xs where c: "c = JArr xs"
      and bad: "xs = [] \<or> (case first_candidate_text data of None \<Rightarrow> True | Some t \<Rightarrow> \<not> is_string t)"
      by (cases c) (simp_all add: invalid_payload_def)
    show ?thesis
    proof (cases xs)
      case Nil
      then show ?thesis by (simp add: candidate_text_def Inr c bind_err_Inr)
    next
      case (Cons c0 cs)
      then have a: "js_get data ''candidates'' = Inr (JArr (c0 # cs))"
        using Inr c by simp
      from bad Cons have
        "case first_candidate_text data of None \<Rightarrow> True | Some t \<Rightarrow> \<not> is_string t"
        by simp
      then show ?thesis
        by (auto simp: candidate_text_of_array[OF a] first_candidate_text_of_array[OF a]
            bind_err_def call_trim_not_string split: sum.splits)
    qed
  qed
qed

lemma js_trim_empty_iff: "js_trim t = [] \<longleftrightarrow> list_all is_white_space t"
proof
  assume "js_trim t = []"
  then have "dropWhile is_white_space (rev (dropWhile is_white_space t)) = []"
    by (simp add: js_trim_def)
  then have all: "\<forall>c \<in> set (dropWhile is_white_space t). is_white_space c"
    by (simp add: dropWhile_eq_Nil_conv)
  have "dropWhile is_white_space t = []"
  proof (rule ccontr)
    assume ne: "dropWhile is_white_space t \<noteq> []"
    then have "\<not> is_white_space (hd (dropWhile is_white_space t))"
      by (rule hd_dropWhile)
    moreover have "hd (dropWhile is_white_space t) \<in> set (dropWhile is_white_space t)"
      using ne by simp
    ultimately show False using all by blast
  qed
  then show "list_all is_white_space t"
    by (simp add: dropWhile_eq_Nil_conv list_all_iff)
next
  assume "list_all is_white_space t"
  then have "dropWhile is_white_space t = []"
    by (simp add: dropWhile_eq_Nil_conv list_all_iff)
  then have "js_trim t = rev (dropWhile is_white_space (rev []))"
    by (simp only: js_trim_def)
  then show "js_trim t = []"
    by simp
qed

lemma fallback_text_not_empty: "fallback_text a n \<noteq> []"
  by (simp add: fallback_text_def)

lemma fallback_message_rendered:
  "ToString E name = Inr n \<Longrightarrow> ToString E amount = Inr a \<Longrightarrow>
   fallback_message E name amount = Inr (fallback_text a n)"
  by (simp add: fallback_message_def bind_err_Inr)

lemma generate_cases:
  assumes "ToString E name = Inr n" and "ToString E amount = Inr a"
  shows "generateThankYouMessage E name amount message =
           (case fst (generate_try E name amount message) of
              Inr text \<Rightarrow> Inr text
            | Inl e \<Rightarrow> Inr (fallback_text a n),
            snd (generate_try E name amount message))"
  by (cases "generate_try E name amount message")
     (auto simp: generateThankYouMessage_def fallback_message_rendered[OF assms] split: sum.splits)

lemma generate_try_fault:
  assumes "build_prompt E name amount message = Inr prompt"
    and "external_fault (fetch E (gemini_request E prompt))"
  shows "isl (fst (generate_try E name amount message))"
proof (cases "fetch E (gemini_request E prompt)")
  case FetchRejected
  then show ?thesis by (simp add: generate_try_def assms(1))
next
  case (Response ok status js)
  with assms(2) show ?thesis
    by (cases js) (auto simp: generate_try_def assms(1) invalid_payload_throws)
qed

lemma generate_try_Inr:
  assumes "fst (generate_try E name amount message) = Inr s"
  shows "\<exists>prompt status data t.
           build_prompt E name amount message = Inr prompt \<and>
           fetch E (gemini_request E prompt) = Response True status (Some data) \<and>
           first_candidate_text data = Some (JStr t) \<and> s = js_trim t"
  using assms
  by (auto simp: generate_try_def
      split: sum.splits fetch_outcome.splits if_splits option.splits dest: candidate_text_Inr)

lemma generate_try_first:
  assumes "build_prompt E name amount message = Inr prompt"
    and "fetch E (gemini_request E prompt) = Response True status (Some data)"
    and "js_get data ''candidates'' = Inr (JArr (c0 # cs))"
    and "first_candidate_text data = Some (JStr t)"
  shows "fst (generate_try E name amount message) = Inr (js_trim t)"
  by (simp add: generate_try_def assms(1,2) candidate_text_first[OF assms(3,4)])


text \<open>
  What the generator returns, for a name and an amount that convert to strings: the
  fallback text of line 62 when the attempt throws, the value of the attempt otherwise.
\<close>

lemma generate_fallback:
  assumes "ToString E name = Inr n" and "ToString E amount = Inr a"
    and "isl (fst (generate_try E name amount message))"
  shows "fst (generateThankYouMessage E name amount message) =
           Inr (''Thank you so much for your generous donation of $'' @ a @ '', '' @ n @
                ''! Your support means the world to us and will make a real difference.'')"
  using assms(3)
  by (auto simp: generate_cases[OF assms(1,2)] isl_def fallback_text_def)


text \<open>
  Claim C6. When the prompt is built and the text service answers with a success status
  and a body whose \<open>candidates\<close> is a non-empty array, the first candidate carrying a
  string at \<open>content.parts[0].text\<close>, the generator returns exactly that string with
  the white space at both ends removed (and has sent exactly one request). The value
  comes from the \<open>return\<close> of line 55, not from the \<open>catch\<close>.
\<close>

theorem generate_returns_trimmed_candidate:
  assumes "build_prompt E name amount message = Inr prompt"
    and "fetch E (gemini_request E prompt) = Response True status (Some data)"
    and "js_get data ''candidates'' = Inr (JArr (c0 # cs))"
    and "js_get c0 ''content'' = Inr content"
    and "js_get content ''parts'' = Inr (JArr (p0 # ps))"
    and "js_get p0 ''text'' = Inr (JStr t)"
  shows "generateThankYouMessage E name amount message = (Inr (js_trim t), [gemini_request E prompt])"
proof -
  have "candidate_text E data = Inr (js_trim t)"
    using assms(3-6) by (rule candidate_text_found)
  then have "generate_try E name amount message = (Inr (js_trim t), [gemini_request E prompt])"
    by (simp add: generate_try_def assms(1,2))
  then show ?thesis
    by (simp add: generateThankYouMessage_def)
qed

lemma js_trim_example: "js_trim ''  Thank you, Ada!  '' = ''Thank you, Ada!''"
  by (simp add: js_trim_def is_white_space_def)

theorem generate_returns_trimmed_candidate_witness:
  "fst (generateThankYouMessage (example_env (reply_with_text ''  Thank you, Ada!  '') True)
          (JStr ''Ada'') (JStr ''25.00'') JUndefined) = Inr ''Thank you, Ada!''"
proof -
  let ?E = "example_env (reply_with_text ''  Thank you, Ada!  '') True"
  obtain prompt where p: "build_prompt ?E (JStr ''Ada'') (JStr ''25.00'') JUndefined = Inr prompt"
    by (simp add: build_prompt_def bind_err_Inr)
  have f: "fetch ?E (gemini_request ?E prompt) =
             Response True 200
               (Some (JObj [(''candidates'',
                  JArr [JObj [(''content'', JObj [(''parts'', JArr [JObj [(''text'', JStr ''  Thank you, Ada!  '')]])])]])]))"
    by (simp add: example_env_def reply_with_text_def)
  show ?thesis
    using generate_returns_trimmed_candidate[OF p f, of _ "[]" _ _ "[]" "''  Thank you, Ada!  ''"]
    by (simp add: js_trim_example)
qed



section \<open>The two copies\<close>

lemma build_prompt_same: "build_prompt_part_000 E name amount message = build_prompt E name amount message"
  by (simp add: build_prompt_part_000_def build_prompt_def bind_err_def Let_def split: sum.splits)

lemma gemini_request_same: "gemini_request_part_000 E prompt = gemini_request E prompt"
  by (simp add: gemini_request_part_000_def gemini_request_def)

lemma candidate_text_same: "candidate_text_part_000 E data = candidate_text E data"
  by (simp add: candidate_text_part_000_def candidate_text_def bind_err_def split: sum.splits bool.splits)

lemma generate_try_same: "generate_try_part_000 E name amount message = generate_try E name amount message"
  by (simp add: generate_try_part_000_def generate_try_def build_prompt_same gemini_request_same
      candidate_text_same Let_def split: sum.splits fetch_outcome.splits option.splits)

lemma fallback_message_same: "fallback_message_part_000 E name amount = fallback_message E name amount"
  by (simp add: fallback_message_part_000_def fallback_message_def fallback_text_def bind_err_def
      split: sum.splits)

lemma generate_same:
  "generateThankYouMessage_part_000 E name amount message = generateThankYouMessage E name amount message"
  by (simp add: generateThankYouMessage_part_000_def generateThankYouMessage_def generate_try_same
      fallback_message_same split: prod.splits sum.splits)

text \<open>
  Claim C8. The generators of \<open>server.js\<close> and of \<open>part_000\<close> build the same
  prompt, issue the same request and return the same result (value and requests sent)
  for every name, amount and message and every behaviour of the text service.
\<close>

theorem generators_extensionally_equal:
  "build_prompt_part_000 E name amount message = build_prompt E name amount message \<and>
   gemini_request_part_000 E prompt = gemini_request E prompt \<and>
   generateThankYouMessage_part_000 E name amount message =
     generateThankYouMessage E name amount message"
  by (simp add: build_prompt_same gemini_request_same generate_same)

theorem generators_extensionally_equal_witness:
  "generateThankYouMessage_part_000 (example_env FetchRejected True) (JStr ''Ada'') (JStr ''25.00'') JUndefined =
   generateThankYouMessage (example_env FetchRejected True) (JStr ''Ada'') (JStr ''25.00'') JUndefined"
  using generators_extensionally_equal[of "example_env FetchRejected True" "JStr ''Ada''"
      "JStr ''25.00''" JUndefined "[]"]
  by simp

text \<open>
  Claim C10. The optional message is tested for truthiness: with the empty string as
  message the generator builds the same prompt, sends the same requests and returns the
  same value as with an absent message (\<open>undefined\<close>), in both copies of the server.
\<close>

lemma build_prompt_falsy:
  "\<not> truthy m1 \<Longrightarrow> \<not> truthy m2 \<Longrightarrow> build_prompt E name amount m1 = build_prompt E name amount m2"
  by (simp add: build_prompt_def)

theorem empty_message_same_as_absent:
  "build_prompt E name amount (JStr []) = build_prompt E name amount JUndefined \<and>
   generateThankYouMessage E name amount (JStr []) = generateThankYouMessage E name amount JUndefined \<and>
   build_prompt_part_000 E name amount (JStr []) = build_prompt_part_000 E name amount JUndefined \<and>
   generateThankYouMessage_part_000 E name amount (JStr []) =
     generateThankYouMessage_part_000 E name amount JUndefined"
proof -
  have p: "build_prompt E name amount (JStr []) = build_prompt E name amount JUndefined"
    by (rule build_prompt_falsy) simp_all
  then have t: "generate_try E name amount (JStr []) = generate_try E name amount JUndefined"
    by (simp add: generate_try_def)
  then have g: "generateThankYouMessage E name amount (JStr []) = generateThankYouMessage E name amount JUndefined"
    by (simp add: generateThankYouMessage_def)
  show ?thesis
    using p g by (simp add: build_prompt_same generate_same)
qed

theorem empty_message_same_as_absent_witness:
  "generateThankYouMessage (example_env FetchRejected True) (JStr ''Ada'') (JStr ''25.00'') (JStr []) =
   generateThankYouMessage (example_env FetchRejected True) (JStr ''Ada'') (JStr ''25.00'') JUndefined"
  using empty_message_same_as_absent[of "example_env FetchRejected True" "JStr ''Ada''" "JStr ''25.00''"]
  by simp

section \<open>The handler\<close>

lemma process_capture_same: "process_capture_part_000 E event = process_capture E event"
  by (simp add: process_capture_part_000_def process_capture_def generate_same split: sum.splits)

lemma webhook_post_same: "webhook_post_part_000 E event = webhook_post E event"
  by (simp add: webhook_post_part_000_def webhook_post_def process_capture_same cong: if_cong)

lemma process_capture_no_response: "responses (snd (process_capture E event)) = []"
  by (simp add: process_capture_def no_effects_def Let_def split: sum.splits prod.splits)

lemma process_capture_read_fails:
  "read_donation E event = Inl e \<Longrightarrow> process_capture E event = (Some e, no_effects)"
  by (simp add: process_capture_def)

lemma webhook_post_recognized:
  assumes "js_get event ''event_type'' = Inr (JStr ''PAYMENT.CAPTURE.COMPLETED'')"
  shows "webhook_post E event =
           Inr (case process_capture E event of
                  (Some e, eff) \<Rightarrow> eff \<lparr> responses := responses eff @ [500] \<rparr>
                | (None, eff) \<Rightarrow> eff \<lparr> responses := responses eff @ [200] \<rparr>)"
  by (simp add: webhook_post_def assms bind_err_Inr split: prod.splits option.splits)

lemma generate_total:
  assumes "ToString E name = Inr n" and "ToString E amount = Inr a"
  shows "\<exists>ack. generateThankYouMessage E name amount message =
                 (Inr ack, snd (generate_try E name amount message))"
  by (cases "fst (generate_try E name amount message)") (simp_all add: generate_cases[OF assms])

lemma process_capture_valid:
  assumes "read_donation E event = Inr d"
    and "ToString E (d_name d) = Inr n"
    and "ToString E (d_amount d) = Inr a"
    and "ToString E (d_email d) = Inr e"
    and "js_get (d_capture d) ''id'' = Inr i"
    and "ToString E i = Inr txn"
  shows "\<exists>ack sent m.
           generateThankYouMessage E (d_name d) (d_amount d) (d_message d) = (Inr ack, sent) \<and>
           build_mail E d ack = Inr m \<and>
           process_capture E event =
             (if sendMail E m then None else Some DeliveryFault,
              \<lparr> responses = [], generator_calls = [(d_name d, d_amount d, d_message d)],
                fetch_log = sent, mail_log = [m] \<rparr>)"
proof -
  obtain ack sent where g:
    "generateThankYouMessage E (d_name d) (d_amount d) (d_message d) = (Inr ack, sent)"
    using generate_total[OF assms(2,3)] by blast
  obtain m where m: "build_mail E d ack = Inr m"
    by (simp add: build_mail_def assms bind_err_Inr)
  have l: "log_processing E d = Inr ()"
    by (simp add: log_processing_def assms bind_err_Inr)
  have "process_capture E event =
          (if sendMail E m then None else Some DeliveryFault,
           \<lparr> responses = [], generator_calls = [(d_name d, d_amount d, d_message d)],
             fetch_log = sent, mail_log = [m] \<rparr>)"
    by (simp add: process_capture_def assms(1,4) l g m no_effects_def)
  with g m show ?thesis by blast
qed

lemma log_processing_Inr:
  "log_processing E d = Inr u \<Longrightarrow>
   (\<exists>a. ToString E (d_amount d) = Inr a) \<and> (\<exists>n. ToString E (d_name d) = Inr n) \<and>
   (\<exists>e. ToString E (d_email d) = Inr e)"
  by (auto simp: log_processing_def bind_err_eq_Inr)

lemma generator_called_with_convertible_arguments:
  assumes "(name, amount, message) \<in> set (generator_calls (snd (process_capture E event)))"
  shows "(\<exists>n. ToString E name = Inr n) \<and> (\<exists>a. ToString E amount = Inr a)"
  using assms
  by (auto simp: process_capture_def no_effects_def Let_def
      split: sum.splits prod.splits if_splits dest: log_processing_Inr)

section \<open>The example events\<close>

lemma example_env_fields:
  "fetch (example_env reply accepted) request = reply"
  "sendMail (example_env reply accepted) m = accepted"
  "JSON_parse (example_env reply accepted) = example_parse"
  "GEMINI_API_KEY (example_env reply accepted) = Some ''example-key''"
  "EMAIL_FROM (example_env reply accepted) = Some ''donations@hopespring.example''"
  by (simp_all add: example_env_def)

lemma capture_event_recognized:
  "js_get (capture_event custom_id) ''event_type'' = Inr (JStr ''PAYMENT.CAPTURE.COMPLETED'')"
  by (simp add: capture_event_def)

lemma read_ada:
  "read_donation (example_env reply accepted) (capture_event ada_metadata) = Inr ada_donation"
  by (simp add: read_donation_def capture_event_def bind_err_Inr array_index_zero
      example_env_fields example_parse_def ada_metadata_def ada_donation_def)

lemma read_nameless:
  "read_donation (example_env reply accepted) (capture_event nameless_metadata) = Inr nameless_donation"
  by (simp add: read_donation_def capture_event_def bind_err_Inr array_index_zero
      example_env_fields example_parse_def nameless_metadata_def nameless_donation_def)

lemma read_not_json:
  "read_donation (example_env reply accepted) (capture_event ''not-json'') = Inl SyntaxError"
  by (simp add: read_donation_def capture_event_def bind_err_Inr bind_err_Inl array_index_zero
      example_env_fields example_parse_def)


section \<open>The handler: claims\<close>

lemma read_donation_malformed:
  assumes "js_get event ''resource'' = Inr cap"
    and "nullish cap \<or>
         (\<exists>amt. js_get cap ''amount'' = Inr amt \<and> nullish amt) \<or>
         (\<exists>units. js_get cap ''purchase_units'' = Inr units \<and>
            (nullish units \<or>
             (\<exists>unit. js_get units ''0'' = Inr unit \<and>
                (nullish unit \<or>
                 (\<exists>custom_id text.
                    js_get unit ''custom_id'' = Inr custom_id \<and>
                    ToString E custom_id = Inr text \<and> JSON_parse E text = None)))))"
  shows "\<exists>e. read_donation E event = Inl e"
  using assms
  by (auto simp: read_donation_def bind_err_def js_get_nullish split: sum.splits)

text \<open>
  Claim C4. For every event whose \<open>event_type\<close> is not the tag
  \<open>PAYMENT.CAPTURE.COMPLETED\<close>, the handler calls neither the generator nor the text
  service nor the mail transport, and sends the single status 200.
\<close>

theorem unrecognized_event_acknowledged:
  assumes "js_get event ''event_type'' = Inr t"
    and "t \<noteq> JStr ''PAYMENT.CAPTURE.COMPLETED''"
  shows "webhook_post E event =
           Inr \<lparr> responses = [200], generator_calls = [], fetch_log = [], mail_log = [] \<rparr>"
  by (simp add: webhook_post_def assms bind_err_Inr no_effects_def)

theorem unrecognized_event_acknowledged_witness:
  "webhook_post (example_env FetchRejected False)
     (JObj [(''event_type'', JStr ''CHECKOUT.ORDER.APPROVED'')]) =
   Inr \<lparr> responses = [200], generator_calls = [], fetch_log = [], mail_log = [] \<rparr>"
  using unrecognized_event_acknowledged[of "JObj [(''event_type'', JStr ''CHECKOUT.ORDER.APPROVED'')]"
      "JStr ''CHECKOUT.ORDER.APPROVED''" "example_env FetchRejected False"]
  by simp

text \<open>
  Claim C5. For every event with the recognized tag in which the path to the metadata is
  absent (\<open>resource\<close>, \<open>resource.amount\<close>, \<open>resource.purchase_units\<close> or its element
  \<open>[0]\<close> is \<open>undefined\<close> or \<open>null\<close>) or in which \<open>custom_id\<close> is a text that
  \<open>JSON.parse\<close> rejects, the handler sends the single status 500; no message is handed
  to the mail transport and the generator is not called.
\<close>

theorem malformed_event_reports_failure:
  assumes "js_get event ''event_type'' = Inr (JStr ''PAYMENT.CAPTURE.COMPLETED'')"
    and "js_get event ''resource'' = Inr cap"
    and "nullish cap \<or>
         (\<exists>amt. js_get cap ''amount'' = Inr amt \<and> nullish amt) \<or>
         (\<exists>units. js_get cap ''purchase_units'' = Inr units \<and>
            (nullish units \<or>
             (\<exists>unit. js_get units ''0'' = Inr unit \<and>
                (nullish unit \<or>
                 (\<exists>custom_id text.
                    js_get unit ''custom_id'' = Inr custom_id \<and>
                    ToString E custom_id = Inr text \<and> JSON_parse E text = None)))))"
  shows "webhook_post E event =
           Inr \<lparr> responses = [500], generator_calls = [], fetch_log = [], mail_log = [] \<rparr>"
proof -
  obtain e where "read_donation E event = Inl e"
    using read_donation_malformed[OF assms(2,3)] by blast
  then have "process_capture E event = (Some e, no_effects)"
    by (rule process_capture_read_fails)
  then show ?thesis
    by (simp add: webhook_post_recognized[OF assms(1)] no_effects_def)
qed

theorem malformed_event_reports_failure_witness:
  "JSON_parse (example_env FetchRejected True) ''not-json'' = None \<and>
   webhook_post (example_env FetchRejected True) (capture_event ''not-json'') =
     Inr \<lparr> responses = [500], generator_calls = [], fetch_log = [], mail_log = [] \<rparr>"
proof -
  let ?cap = "JObj [(''id'', JStr ''8XY12345AB678901C''),
                    (''amount'', JObj [(''currency_code'', JStr ''USD''), (''value'', JStr ''25.00'')]),
                    (''purchase_units'', JArr [JObj [(''custom_id'', JStr ''not-json'')]])]"
  have r: "js_get (capture_event ''not-json'') ''resource'' = Inr ?cap"
    by (simp add: capture_event_def)
  have p: "JSON_parse (example_env FetchRejected True) ''not-json'' = None"
    by (simp add: example_env_fields example_parse_def)
  have "\<exists>units. js_get ?cap ''purchase_units'' = Inr units \<and>
            (nullish units \<or>
             (\<exists>unit. js_get units ''0'' = Inr unit \<and>
                (nullish unit \<or>
                 (\<exists>custom_id text.
                    js_get unit ''custom_id'' = Inr custom_id \<and>
                    ToString (example_env FetchRejected True) custom_id = Inr text \<and>
                    JSON_parse (example_env FetchRejected True) text = None))))"
    by (simp add: array_index_zero p)
  then show ?thesis
    using malformed_event_reports_failure[OF capture_event_recognized r, of "example_env FetchRejected True"] p
    by blast
qed

text \<open>
  Claim C9. For every request body that \<open>express.json()\<close> can deliver (an object or an
  array; any value other than \<open>null\<close> and \<open>undefined\<close> will do), the handler, in both
  copies of the server, sends exactly one status: 500 when the event has the recognized
  tag and an exception reaches the \<open>catch\<close>, after which the \<open>return\<close> skips the
  trailing 200; and exactly the one 200 on every other path.
\<close>

theorem exactly_one_response:
  assumes "\<not> nullish event"
  shows "\<exists>eff. webhook_post E event = Inr eff \<and>
           webhook_post_part_000 E event = Inr eff \<and>
           (responses eff = [200] \<or> responses eff = [500]) \<and>
           (responses eff = [500] \<longleftrightarrow>
              js_get event ''event_type'' = Inr (JStr ''PAYMENT.CAPTURE.COMPLETED'') \<and>
              fst (process_capture E event) \<noteq> None)"
proof -
  obtain t where t: "js_get event ''event_type'' = Inr t"
    using js_get_not_nullish[OF assms] by blast
  show ?thesis
  proof (cases "t = JStr ''PAYMENT.CAPTURE.COMPLETED''")
    case False
    then show ?thesis
      by (simp add: webhook_post_same webhook_post_def t bind_err_Inr no_effects_def)
  next
    case True
    obtain r eff where p: "process_capture E event = (r, eff)"
      by (cases "process_capture E event")
    have "responses eff = []"
      using process_capture_no_response[of E event] p by simp
    then show ?thesis
      using True t p
      by (cases r) (simp_all add: webhook_post_same webhook_post_def bind_err_Inr)
  qed
qed

theorem exactly_one_response_witness:
  "\<not> nullish (capture_event ''not-json'') \<and>
   map_sum id responses (webhook_post (example_env FetchRejected True) (capture_event ''not-json'')) = Inr [500] \<and>
   map_sum id responses (webhook_post_part_000 (example_env FetchRejected True) (capture_event ''not-json'')) = Inr [500]"
proof -
  have n: "\<not> nullish (capture_event ''not-json'')"
    by (simp add: nullish_def capture_event_def)
  have "fst (process_capture (example_env FetchRejected True) (capture_event ''not-json'')) \<noteq> None"
    by (simp add: process_capture_read_fails[OF read_not_json])
  then show ?thesis
    using exactly_one_response[OF n, of "example_env FetchRejected True"] n capture_event_recognized[of "''not-json''"]
    by auto
qed

text \<open>
  Claim C7. For every event with the recognized tag for which the reads of lines 132 to
  139 and the log of line 142 complete and the generator returns an acknowledgement
  (generated or fallback): when the mail transport rejects the message built from it,
  the handler sends the single status 500. The message had been handed to the
  transport once.
\<close>

theorem rejected_send_reports_failure:
  assumes "js_get event ''event_type'' = Inr (JStr ''PAYMENT.CAPTURE.COMPLETED'')"
    and "read_donation E event = Inr d"
    and "log_processing E d = Inr ()"
    and "generateThankYouMessage E (d_name d) (d_amount d) (d_message d) = (Inr ack, sent)"
    and "build_mail E d ack = Inr m"
    and "\<not> sendMail E m"
  shows "webhook_post E event =
           Inr \<lparr> responses = [500], generator_calls = [(d_name d, d_amount d, d_message d)],
                 fetch_log = sent, mail_log = [m] \<rparr>"
  by (simp add: webhook_post_recognized[OF assms(1)] process_capture_def assms(2-6) no_effects_def)

theorem rejected_send_reports_failure_witness:
  "map_sum id responses
     (webhook_post (example_env FetchRejected False) (capture_event ada_metadata)) = Inr [500] \<and>
   map_sum id (map mail_to \<circ> mail_log)
     (webhook_post (example_env FetchRejected False) (capture_event ada_metadata)) = Inr [JStr ''ada@x.com'']"
proof -
  let ?E = "example_env FetchRejected False"
  have l: "log_processing ?E ada_donation = Inr ()"
    by (simp add: log_processing_def ada_donation_def bind_err_Inr)
  obtain ack where g:
    "generateThankYouMessage ?E (d_name ada_donation) (d_amount ada_donation) (d_message ada_donation) =
       (Inr ack, snd (generate_try ?E (d_name ada_donation) (d_amount ada_donation) (d_message ada_donation)))"
    using generate_total[of ?E "d_name ada_donation" "''Ada''" "d_amount ada_donation" "''25.00''"]
    by (auto simp: ada_donation_def)
  obtain m where m: "build_mail ?E ada_donation ack = Inr m" and t: "mail_to m = JStr ''ada@x.com''"
    by (simp add: build_mail_def ada_donation_def bind_err_Inr)
  have s: "\<not> sendMail ?E m"
    by (simp add: example_env_fields)
  show ?thesis
    using rejected_send_reports_failure[OF capture_event_recognized read_ada l g m s] t
    by simp
qed

lemma build_mail_to: "build_mail E d ack = Inr m \<Longrightarrow> mail_to m = d_email d"
  by (auto simp: build_mail_def bind_err_eq_Inr)

lemma build_mail_html:
  assumes "build_mail E d ack = Inr m"
    and "ToString E (d_name d) = Inr n"
    and "ToString E (d_amount d) = Inr a"
    and "js_get (d_capture d) ''id'' = Inr i"
    and "ToString E i = Inr txn"
  shows "mail_html m =
           html_before_name @ n @ html_before_amount @ a @ html_before_cause @ cause @
           html_before_id @ txn @ html_before_message @ ack @ html_after_message"
  using assms(1) by (auto simp: build_mail_def assms(2-5) bind_err_Inr)

lemma generate_empty_only_from_blank_text:
  assumes "ToString E name = Inr n" and "ToString E amount = Inr a"
    and "fst (generateThankYouMessage E name amount message) = Inr []"
  shows "\<exists>prompt status data t.
           build_prompt E name amount message = Inr prompt \<and>
           fetch E (gemini_request E prompt) = Response True status (Some data) \<and>
           first_candidate_text data = Some (JStr t) \<and> list_all is_white_space t"
proof (cases "fst (generate_try E name amount message)")
  case (Inl e)
  then have "fst (generateThankYouMessage E name amount message) = Inr (fallback_text a n)"
    by (simp add: generate_cases[OF assms(1,2)])
  with assms(3) show ?thesis
    using fallback_text_not_empty[of a n] by simp
next
  case (Inr s)
  then have "s = []"
    using assms(3) by (simp add: generate_cases[OF assms(1,2)])
  with Inr obtain prompt status data t where
    "build_prompt E name amount message = Inr prompt"
    "fetch E (gemini_request E prompt) = Response True status (Some data)"
    "first_candidate_text data = Some (JStr t)" "js_trim t = []"
    using generate_try_Inr[of E name amount message s] by auto
  then show ?thesis
    using js_trim_empty_iff by blast
qed

lemma generate_first_candidate:
  assumes "ToString E name = Inr n" and "ToString E amount = Inr a"
    and "build_prompt E name amount message = Inr prompt"
    and "fetch E (gemini_request E prompt) = Response True status (Some data)"
    and "js_get data ''candidates'' = Inr (JArr (c0 # cs))"
    and "first_candidate_text data = Some (JStr t)"
  shows "fst (generateThankYouMessage E name amount message) = Inr (js_trim t)"
  using generate_try_first[OF assms(3-6)] by (simp add: generate_cases[OF assms(1,2)])

lemma webhook_post_valid:
  assumes "js_get event ''event_type'' = Inr (JStr ''PAYMENT.CAPTURE.COMPLETED'')"
    and "read_donation E event = Inr d"
    and "ToString E (d_name d) = Inr n"
    and "ToString E (d_amount d) = Inr a"
    and "ToString E (d_email d) = Inr e"
    and "js_get (d_capture d) ''id'' = Inr i"
    and "ToString E i = Inr txn"
  shows "\<exists>ack sent m.
           generateThankYouMessage E (d_name d) (d_amount d) (d_message d) = (Inr ack, sent) \<and>
           build_mail E d ack = Inr m \<and>
           webhook_post E event =
             Inr \<lparr> responses = [if sendMail E m then 200 else 500],
                   generator_calls = [(d_name d, d_amount d, d_message d)],
                   fetch_log = sent, mail_log = [m] \<rparr>"
proof -
  obtain ack sent m where
    g: "generateThankYouMessage E (d_name d) (d_amount d) (d_message d) = (Inr ack, sent)" and
    m: "build_mail E d ack = Inr m" and
    p: "process_capture E event =
          (if sendMail E m then None else Some DeliveryFault,
           \<lparr> responses = [], generator_calls = [(d_name d, d_amount d, d_message d)],
             fetch_log = sent, mail_log = [m] \<rparr>)"
    using process_capture_valid[OF assms(2-7)] by blast
  have "webhook_post E event =
          Inr \<lparr> responses = [if sendMail E m then 200 else 500],
                generator_calls = [(d_name d, d_amount d, d_message d)],
                fetch_log = sent, mail_log = [m] \<rparr>"
    by (simp add: webhook_post_recognized[OF assms(1)] p)
  with g m show ?thesis by blast
qed

text \<open>
  Claim C1 as stated asks for a non-empty acknowledgement. It fails when the text service
  answers with a candidate whose text is a single space: the event is recognized and its
  metadata decodes to the donor Ada, the generator returns the empty string, and the
  message handed to the mail transport is the one built with the empty acknowledgement.
\<close>

theorem empty_acknowledgement_counterexample:
  "js_get (capture_event ada_metadata) ''event_type'' = Inr (JStr ''PAYMENT.CAPTURE.COMPLETED'') \<and>
   read_donation (example_env (reply_with_text '' '') True) (capture_event ada_metadata) =
     Inr ada_donation \<and>
   fst (generateThankYouMessage (example_env (reply_with_text '' '') True)
          (d_name ada_donation) (d_amount ada_donation) (d_message ada_donation)) = Inr [] \<and>
   map_sum id (map Inr \<circ> mail_log)
     (webhook_post (example_env (reply_with_text '' '') True) (capture_event ada_metadata)) =
     Inr [build_mail (example_env (reply_with_text '' '') True) ada_donation []]"
proof (intro conjI)
  show "js_get (capture_event ada_metadata) ''event_type'' = Inr (JStr ''PAYMENT.CAPTURE.COMPLETED'')"
    by (rule capture_event_recognized)
  show "read_donation (example_env (reply_with_text '' '') True) (capture_event ada_metadata) =
          Inr ada_donation"
    by (rule read_ada)
  show "fst (generateThankYouMessage (example_env (reply_with_text '' '') True)
          (d_name ada_donation) (d_amount ada_donation) (d_message ada_donation)) = Inr []"
    by (simp add: ada_donation_def generateThankYouMessage_def generate_try_def build_prompt_def
        bind_err_Inr example_env_fields reply_with_text_def candidate_text_def array_index_zero
        js_trim_def is_white_space_def)
  show "map_sum id (map Inr \<circ> mail_log)
          (webhook_post (example_env (reply_with_text '' '') True) (capture_event ada_metadata)) =
        Inr [build_mail (example_env (reply_with_text '' '') True) ada_donation []]"
    by (simp add: webhook_post_recognized[OF capture_event_recognized] process_capture_def read_ada
        log_processing_def ada_donation_def bind_err_Inr
        generateThankYouMessage_def generate_try_def build_prompt_def
        example_env_fields reply_with_text_def candidate_text_def array_index_zero js_trim_def
        is_white_space_def build_mail_def no_effects_def)
qed

text \<open>
  Claim C1, amended. For every event with the recognized tag whose reads complete with
  a string amount, a string name, a string address and a transaction id that converts to
  a string, the handler calls the generator once and hands exactly one message to the
  mail transport, addressed to the donor, whose HTML body holds the acknowledgement
  between the fixed pieces of the template; it sends the single status 200 when the
  transport accepts the message and 500 when it rejects it. The acknowledgement is
  empty only when the text service answered the request with a success status and a
  body whose \<open>candidates[0].content.parts[0].text\<close> is a string of white space only
  (the empty string included). Whenever the service answers with a success status and
  a body whose \<open>candidates\<close> is a non-empty array with a string at that place, the
  acknowledgement is that string trimmed, hence empty exactly when the string holds
  white space only. Whenever the service faults (rejection, status without success,
  undecodable body, empty or invalid payload) the acknowledgement is the fixed text of
  line 62 around the amount and the name.
\<close>

theorem valid_event_dispatches_once:
  assumes "js_get event ''event_type'' = Inr (JStr ''PAYMENT.CAPTURE.COMPLETED'')"
    and "read_donation E event = Inr d"
    and "d_name d = JStr n"
    and "d_amount d = JStr a"
    and "d_email d = JStr e"
    and "js_get (d_capture d) ''id'' = Inr i"
    and "ToString E i = Inr txn"
  shows "\<exists>ack sent m.
           generateThankYouMessage E (JStr n) (JStr a) (d_message d) = (Inr ack, sent) \<and>
           webhook_post E event =
             Inr \<lparr> responses = [if sendMail E m then 200 else 500],
                   generator_calls = [(JStr n, JStr a, d_message d)],
                   fetch_log = sent, mail_log = [m] \<rparr> \<and>
           mail_to m = JStr e \<and>
           mail_html m =
             html_before_name @ n @ html_before_amount @ a @ html_before_cause @ cause @
             html_before_id @ txn @ html_before_message @ ack @ html_after_message \<and>
           (ack = [] \<longrightarrow>
              (\<exists>prompt status data t.
                 build_prompt E (JStr n) (JStr a) (d_message d) = Inr prompt \<and>
                 fetch E (gemini_request E prompt) = Response True status (Some data) \<and>
                 first_candidate_text data = Some (JStr t) \<and> list_all is_white_space t)) \<and>
           (\<forall>prompt status data c0 cs t.
              build_prompt E (JStr n) (JStr a) (d_message d) = Inr prompt \<longrightarrow>
              fetch E (gemini_request E prompt) = Response True status (Some data) \<longrightarrow>
              js_get data ''candidates'' = Inr (JArr (c0 # cs)) \<longrightarrow>
              first_candidate_text data = Some (JStr t) \<longrightarrow>
              ack = js_trim t \<and> (ack = [] \<longleftrightarrow> list_all is_white_space t)) \<and>
           (\<forall>prompt.
              build_prompt E (JStr n) (JStr a) (d_message d) = Inr prompt \<longrightarrow>
              external_fault (fetch E (gemini_request E prompt)) \<longrightarrow>
              ack = ''Thank you so much for your generous donation of $'' @ a @ '', '' @ n @
                    ''! Your support means the world to us and will make a real difference.'')"
proof -
  have n: "ToString E (d_name d) = Inr n" and a: "ToString E (d_amount d) = Inr a"
    and e: "ToString E (d_email d) = Inr e"
    by (simp_all add: assms(3-5))
  have n': "ToString E (JStr n) = Inr n" and a': "ToString E (JStr a) = Inr a"
    by simp_all
  obtain ack sent m where
    g: "generateThankYouMessage E (d_name d) (d_amount d) (d_message d) = (Inr ack, sent)" and
    m: "build_mail E d ack = Inr m" and
    w: "webhook_post E event =
          Inr \<lparr> responses = [if sendMail E m then 200 else 500],
                generator_calls = [(d_name d, d_amount d, d_message d)],
                fetch_log = sent, mail_log = [m] \<rparr>"
    using webhook_post_valid[OF assms(1,2) n a e assms(6,7)] by blast
  have g': "generateThankYouMessage E (JStr n) (JStr a) (d_message d) = (Inr ack, sent)"
    using g by (simp add: assms(3,4))
  then have f: "fst (generateThankYouMessage E (JStr n) (JStr a) (d_message d)) = Inr ack"
    by simp
  have w': "webhook_post E event =
          Inr \<lparr> responses = [if sendMail E m then 200 else 500],
                generator_calls = [(JStr n, JStr a, d_message d)],
                fetch_log = sent, mail_log = [m] \<rparr>"
    using w by (simp add: assms(3,4))
  have t: "mail_to m = JStr e"
    using build_mail_to[OF m] assms(5) by simp
  have h: "mail_html m =
             html_before_name @ n @ html_before_amount @ a @ html_before_cause @ cause @
             html_before_id @ txn @ html_before_message @ ack @ html_after_message"
    by (rule build_mail_html[OF m n a assms(6,7)])
  have empty: "ack = [] \<longrightarrow>
          (\<exists>prompt status data t.
             build_prompt E (JStr n) (JStr a) (d_message d) = Inr prompt \<and>
             fetch E (gemini_request E prompt) = Response True status (Some data) \<and>
             first_candidate_text data = Some (JStr t) \<and> list_all is_white_space t)"
    using generate_empty_only_from_blank_text[OF n' a', of "d_message d"] f by simp
  have first: "\<forall>prompt status data c0 cs t.
          build_prompt E (JStr n) (JStr a) (d_message d) = Inr prompt \<longrightarrow>
          fetch E (gemini_request E prompt) = Response True status (Some data) \<longrightarrow>
          js_get data ''candidates'' = Inr (JArr (c0 # cs)) \<longrightarrow>
          first_candidate_text data = Some (JStr t) \<longrightarrow>
          ack = js_trim t \<and> (ack = [] \<longleftrightarrow> list_all is_white_space t)"
  proof (intro allI impI)
    fix prompt status data c0 cs t
    assume "build_prompt E (JStr n) (JStr a) (d_message d) = Inr prompt"
      and "fetch E (gemini_request E prompt) = Response True status (Some data)"
      and "js_get data ''candidates'' = Inr (JArr (c0 # cs))"
      and "first_candidate_text data = Some (JStr t)"
    then have "fst (generateThankYouMessage E (JStr n) (JStr a) (d_message d)) = Inr (js_trim t)"
      by (rule generate_first_candidate[OF n' a'])
    with f have "ack = js_trim t" by simp
    then show "ack = js_trim t \<and> (ack = [] \<longleftrightarrow> list_all is_white_space t)"
      by (simp add: js_trim_empty_iff)
  qed
  have fault: "\<forall>prompt.
          build_prompt E (JStr n) (JStr a) (d_message d) = Inr prompt \<longrightarrow>
          external_fault (fetch E (gemini_request E prompt)) \<longrightarrow>
          ack = ''Thank you so much for your generous donation of $'' @ a @ '', '' @ n @
                ''! Your support means the world to us and will make a real difference.''"
  proof (intro allI impI)
    fix prompt
    assume "build_prompt E (JStr n) (JStr a) (d_message d) = Inr prompt"
      and "external_fault (fetch E (gemini_request E prompt))"
    then have "isl (fst (generate_try E (JStr n) (JStr a) (d_message d)))"
      by (rule generate_try_fault)
    then have "fst (generateThankYouMessage E (JStr n) (JStr a) (d_message d)) =
                 Inr (''Thank you so much for your generous donation of $'' @ a @ '', '' @ n @
                      ''! Your support means the world to us and will make a real difference.'')"
      by (rule generate_fallback[OF n' a'])
    with f show "ack = ''Thank you so much for your generous donation of $'' @ a @ '', '' @ n @
                ''! Your support means the world to us and will make a real difference.''"
      by simp
  qed
  show ?thesis
  proof (intro exI conjI)
    show "generateThankYouMessage E (JStr n) (JStr a) (d_message d) = (Inr ack, sent)"
      by (rule g')
    show "webhook_post E event =
            Inr \<lparr> responses = [if sendMail E m then 200 else 500],
                  generator_calls = [(JStr n, JStr a, d_message d)],
                  fetch_log = sent, mail_log = [m] \<rparr>"
      by (rule w')
    show "mail_to m = JStr e"
      by (rule t)
    show "mail_html m =
            html_before_name @ n @ html_before_amount @ a @ html_before_cause @ cause @
            html_before_id @ txn @ html_before_message @ ack @ html_after_message"
      by (rule h)
  qed (rule empty first fault)+
qed

theorem valid_event_dispatches_once_witness:
  "map_sum id (length \<circ> mail_log)
     (webhook_post (example_env FetchRejected True) (capture_event ada_metadata)) = Inr 1 \<and>
   map_sum id responses
     (webhook_post (example_env FetchRejected True) (capture_event ada_metadata)) = Inr [200] \<and>
   fst (generateThankYouMessage (example_env FetchRejected True) (JStr ''Ada'') (JStr ''25.00'') JUndefined) =
     Inr ''Thank you so much for your generous donation of $25.00, Ada! Your support means the world to us and will make a real difference.''"
proof -
  let ?E = "example_env FetchRejected True"
  have i: "js_get (d_capture ada_donation) ''id'' = Inr (JStr ''8XY12345AB678901C'')"
    by (simp add: ada_donation_def)
  have n: "d_name ada_donation = JStr ''Ada''" and a: "d_amount ada_donation = JStr ''25.00''"
    and e: "d_email ada_donation = JStr ''ada@x.com''"
    by (simp_all add: ada_donation_def)
  have t: "ToString ?E (JStr ''8XY12345AB678901C'') = Inr ''8XY12345AB678901C''"
    by simp
  have msg: "d_message ada_donation = JUndefined"
    by (simp add: ada_donation_def)
  obtain prompt where p: "build_prompt ?E (JStr ''Ada'') (JStr ''25.00'') JUndefined = Inr prompt"
    by (simp add: build_prompt_def bind_err_Inr)
  have x: "external_fault (fetch ?E (gemini_request ?E prompt))"
    by (simp add: example_env_fields)
  obtain ack sent m where
    g: "generateThankYouMessage ?E (JStr ''Ada'') (JStr ''25.00'') JUndefined = (Inr ack, sent)" and
    w: "webhook_post ?E (capture_event ada_metadata) =
          Inr \<lparr> responses = [if sendMail ?E m then 200 else 500],
                generator_calls = [(JStr ''Ada'', JStr ''25.00'', JUndefined)],
                fetch_log = sent, mail_log = [m] \<rparr>" and
    f: "\<forall>prompt.
          build_prompt ?E (JStr ''Ada'') (JStr ''25.00'') JUndefined = Inr prompt \<longrightarrow>
          external_fault (fetch ?E (gemini_request ?E prompt)) \<longrightarrow>
          ack = ''Thank you so much for your generous donation of $'' @ ''25.00'' @ '', '' @ ''Ada'' @
                ''! Your support means the world to us and will make a real difference.''"
    using valid_event_dispatches_once[OF capture_event_recognized read_ada n a e i t]
    unfolding msg by (elim exE conjE) (rule that, assumption+)
  have "ack = ''Thank you so much for your generous donation of $'' @ ''25.00'' @ '', '' @ ''Ada'' @
                ''! Your support means the world to us and will make a real difference.''"
    using f[rule_format, OF p x] .
  then show ?thesis
    using g w by (simp add: example_env_fields)
qed

text \<open>
  Claim C3 as stated asks for a failure and no send when the name is missing. It fails on
  the event whose metadata is \<open>{"email":"ada@x.com"}\<close>: the event is recognized, the
  name read from the metadata is \<open>undefined\<close>, and with a transport that accepts, the
  handler sends status 200 after handing one message for \<open>ada@x.com\<close> to the
  transport.
\<close>

theorem missing_name_counterexample:
  "js_get (capture_event nameless_metadata) ''event_type'' = Inr (JStr ''PAYMENT.CAPTURE.COMPLETED'') \<and>
   read_donation (example_env FetchRejected True) (capture_event nameless_metadata) =
     Inr nameless_donation \<and>
   d_name nameless_donation = JUndefined \<and>
   map_sum id responses
     (webhook_post (example_env FetchRejected True) (capture_event nameless_metadata)) = Inr [200] \<and>
   map_sum id (map mail_to \<circ> mail_log)
     (webhook_post (example_env FetchRejected True) (capture_event nameless_metadata)) =
     Inr [JStr ''ada@x.com'']"
proof -
  let ?E = "example_env FetchRejected True"
  have i: "js_get (d_capture nameless_donation) ''id'' = Inr (JStr ''8XY12345AB678901C'')"
    by (simp add: nameless_donation_def)
  have n: "ToString ?E (d_name nameless_donation) = Inr ''undefined''"
    and a: "ToString ?E (d_amount nameless_donation) = Inr ''25.00''"
    and e: "ToString ?E (d_email nameless_donation) = Inr ''ada@x.com''"
    by (simp_all add: nameless_donation_def)
  have t: "ToString ?E (JStr ''8XY12345AB678901C'') = Inr ''8XY12345AB678901C''"
    by simp
  obtain ack sent m where
    m: "build_mail ?E nameless_donation ack = Inr m" and
    w: "webhook_post ?E (capture_event nameless_metadata) =
          Inr \<lparr> responses = [if sendMail ?E m then 200 else 500],
                generator_calls = [(d_name nameless_donation, d_amount nameless_donation,
                                    d_message nameless_donation)],
                fetch_log = sent, mail_log = [m] \<rparr>"
    using webhook_post_valid[OF capture_event_recognized read_nameless n a e i t]
    by blast
  have "mail_to m = JStr ''ada@x.com''"
    using build_mail_to[OF m] by (simp add: nameless_donation_def)
  then show ?thesis
    using w by (simp add: capture_event_recognized read_nameless example_env_fields)
       (simp add: nameless_donation_def)
qed

text \<open>
  Claim C3, amended. The handler does not validate the donor fields. For every event
  with the recognized tag whose reads complete (the path to the metadata is there and
  the metadata decodes to a value other than \<open>null\<close>), whose amount is a string, whose
  transaction id converts to a string, and whose name and address are each missing
  (\<open>undefined\<close> or \<open>null\<close>) or a string, the empty string included: the handler calls
  the generator once, with the name as it is, and hands exactly one message to the
  mail transport, with the address as it is for recipient; it sends the single status
  200 when the transport accepts the message and 500 when it rejects it. In
  particular this is what happens when the name or the address is missing or empty.
\<close>

theorem missing_fields_not_validated:
  assumes "js_get event ''event_type'' = Inr (JStr ''PAYMENT.CAPTURE.COMPLETED'')"
    and "read_donation E event = Inr d"
    and "missing_or_string (d_name d)"
    and "missing_or_string (d_email d)"
    and "d_amount d = JStr a"
    and "js_get (d_capture d) ''id'' = Inr i"
    and "ToString E i = Inr txn"
  shows "\<exists>ack sent m.
           generateThankYouMessage E (d_name d) (d_amount d) (d_message d) = (Inr ack, sent) \<and>
           mail_to m = d_email d \<and>
           webhook_post E event =
             Inr \<lparr> responses = [if sendMail E m then 200 else 500],
                   generator_calls = [(d_name d, d_amount d, d_message d)],
                   fetch_log = sent, mail_log = [m] \<rparr>"
proof -
  obtain n where n: "ToString E (d_name d) = Inr n"
    using assms(3) by (cases "d_name d") (simp_all add: missing_or_string_def)
  obtain e where e: "ToString E (d_email d) = Inr e"
    using assms(4) by (cases "d_email d") (simp_all add: missing_or_string_def)
  have a: "ToString E (d_amount d) = Inr a"
    by (simp add: assms(5))
  obtain ack sent m where
    g: "generateThankYouMessage E (d_name d) (d_amount d) (d_message d) = (Inr ack, sent)" and
    m: "build_mail E d ack = Inr m" and
    w: "webhook_post E event =
          Inr \<lparr> responses = [if sendMail E m then 200 else 500],
                generator_calls = [(d_name d, d_amount d, d_message d)],
                fetch_log = sent, mail_log = [m] \<rparr>"
    using webhook_post_valid[OF assms(1,2) n a e assms(6,7)] by blast
  with build_mail_to[OF m] show ?thesis by blast
qed

theorem missing_fields_not_validated_witness:
  "missing_or_string (d_name nameless_donation) \<and>
   d_name nameless_donation = JUndefined \<and>
   map_sum id (map mail_to \<circ> mail_log)
     (webhook_post (example_env FetchRejected False) (capture_event nameless_metadata)) =
     Inr [JStr ''ada@x.com''] \<and>
   map_sum id generator_calls
     (webhook_post (example_env FetchRejected False) (capture_event nameless_metadata)) =
     Inr [(JUndefined, JStr ''25.00'', JUndefined)] \<and>
   map_sum id responses
     (webhook_post (example_env FetchRejected False) (capture_event nameless_metadata)) = Inr [500]"
proof -
  let ?E = "example_env FetchRejected False"
  have i: "js_get (d_capture nameless_donation) ''id'' = Inr (JStr ''8XY12345AB678901C'')"
    by (simp add: nameless_donation_def)
  have k: "missing_or_string (d_name nameless_donation)"
    and l: "missing_or_string (d_email nameless_donation)"
    by (simp_all add: missing_or_string_def nameless_donation_def)
  have a: "d_amount nameless_donation = JStr ''25.00''"
    by (simp add: nameless_donation_def)
  have t: "ToString ?E (JStr ''8XY12345AB678901C'') = Inr ''8XY12345AB678901C''"
    by simp
  show ?thesis
    using missing_fields_not_validated[OF capture_event_recognized read_nameless k l a i t] k
    by (auto simp: nameless_donation_def example_env_fields)
qed

end
